theory Spec2Isabelle
  imports Main "HOL-Library.Word" "HOL-Library.Sublist"
begin

unbundle bit_operations_syntax

section \<open>Texts\<close>

text \<open>
  A Python \<open>str\<close> is a sequence of Unicode code points; \<open>ord\<close> of a character is
  the code point itself. \<open>lit\<close> turns a literal of the source into such a sequence.
\<close>

type_synonym str = "nat list"

definition lit :: "string \<Rightarrow> str" where
  "lit cs = map of_char cs"

section \<open>The polyline decoder (\<open>decode_polyline\<close>, app.py lines 119 to 143)\<close>

text \<open>
  The inner \<open>while True\<close> loop (lines 131 to 139) reads one group of 5-bit chunks.
  It leaves either through \<open>return coordinates\<close> (line 133), when the cursor has
  reached the end of the text, or through \<open>break\<close> (line 139), with the cursor and
  the accumulated result. Python integers are unbounded, so they are \<open>int\<close> here;
  \<open>&\<close>, \<open>|\<close>, \<open><<\<close>, \<open>>>\<close> and \<open>~\<close> are the operations of the same name on \<open>int\<close>.
  No statement of the function can raise: line 134 reads the character at the cursor
  only after line 132 has checked that the cursor is within the text. The loop is
  defined as a partial function: not returning is the value \<open>None\<close>.
\<close>

datatype group = Return | Break nat int

partial_function (option) decode_group :: "str \<Rightarrow> nat \<Rightarrow> nat \<Rightarrow> int \<Rightarrow> group option" where
  "decode_group polyline_str index shift result =
     (if index \<ge> length polyline_str then Some Return
      else
        let b = int (polyline_str ! index) - 63;
            index = index + 1;
            result = result OR push_bit shift (b AND 0x1f);
            shift = shift + 5
        in if b < 0x20 then Some (Break index result)
           else decode_group polyline_str index shift result)"

declare decode_group.simps [code]

text \<open>Line 140: the signed value of a finished group.\<close>

definition delta :: "int \<Rightarrow> int" where
  "delta result = (if result AND 1 \<noteq> 0 then NOT (drop_bit 1 result) else drop_bit 1 result)"

text \<open>
  The loop \<open>for coord in [lat, lng]\<close> (lines 129 to 140) runs over the list of the two
  current values. Line 140, \<open>coord += ...\<close>, rebinds the loop variable \<open>coord\<close> only:
  neither \<open>lat\<close> nor \<open>lng\<close> is assigned. The result is \<open>Some None\<close> when the inner loop
  returned from the function, and \<open>Some (Some index)\<close>, the new cursor, when the list is
  exhausted.
\<close>

fun for_coord :: "str \<Rightarrow> nat \<Rightarrow> int list \<Rightarrow> nat option option" where
  "for_coord polyline_str index [] = Some (Some index)"
| "for_coord polyline_str index (coord # rest) =
     (case decode_group polyline_str index 0 0 of
        None \<Rightarrow> None
      | Some Return \<Rightarrow> Some None
      | Some (Break index result) \<Rightarrow>
          (let coord = coord + delta result
           in for_coord polyline_str index rest))"

text \<open>
  The outer loop (lines 128 to 141). A coordinate is the pair of the two accumulators, in
  units of 1e-5 degrees: the source appends the floats \<open>lat * 1e-5\<close> and \<open>lng * 1e-5\<close>.
\<close>

type_synonym coordinate = "int \<times> int"

partial_function (option) decode_loop ::
  "str \<Rightarrow> nat \<Rightarrow> int \<Rightarrow> int \<Rightarrow> coordinate list \<Rightarrow> coordinate list option" where
  "decode_loop polyline_str index lat lng coordinates =
     (if index < length polyline_str then
        (case for_coord polyline_str index [lat, lng] of
           None \<Rightarrow> None
         | Some None \<Rightarrow> Some coordinates
         | Some (Some index) \<Rightarrow>
             decode_loop polyline_str index lat lng (coordinates @ [(lat, lng)]))
      else Some coordinates)"

declare decode_loop.simps [code]

definition decode_polyline :: "str \<Rightarrow> coordinate list option" where
  "decode_polyline polyline_str =
     (if polyline_str = [] then Some [] else decode_loop polyline_str 0 0 0 [])"

subsection \<open>The decoder as the specification words it\<close>

text \<open>
  Section 4.1 of the specification, step 2: the decoded delta is added to the running
  accumulator of its axis, and the coordinate emitted is the pair of the updated
  accumulators. This second decoder follows those words; it shares the group reader and
  the sign rule with the source.
\<close>

partial_function (option) spec_decode_loop ::
  "str \<Rightarrow> nat \<Rightarrow> int \<Rightarrow> int \<Rightarrow> coordinate list \<Rightarrow> coordinate list option" where
  "spec_decode_loop polyline_str index lat lng coordinates =
     (if index < length polyline_str then
        (case decode_group polyline_str index 0 0 of
           None \<Rightarrow> None
         | Some Return \<Rightarrow> Some coordinates
         | Some (Break index result) \<Rightarrow>
             (let lat = lat + delta result
              in case decode_group polyline_str index 0 0 of
                   None \<Rightarrow> None
                 | Some Return \<Rightarrow> Some coordinates
                 | Some (Break index result) \<Rightarrow>
                     (let lng = lng + delta result
                      in spec_decode_loop polyline_str index lat lng
                           (coordinates @ [(lat, lng)]))))
      else Some coordinates)"

declare spec_decode_loop.simps [code]

definition spec_decode :: "str \<Rightarrow> coordinate list option" where
  "spec_decode polyline_str = spec_decode_loop polyline_str 0 0 0 []"

subsection \<open>Closed groups\<close>

text \<open>
  A character closes its group when the test of line 138 succeeds on it. The number of
  closing characters of a text is the number of groups the text completes.
\<close>

definition closes_group :: "nat \<Rightarrow> bool" where
  "closes_group c \<longleftrightarrow> int c - 63 < 0x20"

definition groups_closed :: "str \<Rightarrow> nat" where
  "groups_closed s = length (filter closes_group s)"

section \<open>Python values, exceptions and built-ins\<close>

text \<open>
  The values that the parsed JSON responses and the dictionaries built by the source are
  made of: \<open>None\<close>, booleans, numbers, texts, lists and dictionaries with text keys. A
  dictionary is an association list in insertion order; a key is looked up with
  \<open>map_of\<close>. The type of numbers is left open (Python has unbounded integers and
  floats); what the source does with a number goes through the built-ins below.
\<close>

datatype 'n pyval =
    PNone
  | PBool bool
  | PNum 'n
  | PStr str
  | PList "'n pyval list"
  | PDict "(str \<times> 'n pyval) list"

text \<open>The exceptions that the modelled code can raise. \<open>Inl\<close> of a result is a raise.\<close>

datatype exn =
  KeyError | IndexError | TypeError | AttributeError | OverflowError | JSONDecodeError

text \<open>
  Built-ins of the Python runtime that the source calls and that depend on Unicode tables
  or on floating point: \<open>lower s\<close> is \<open>s.lower()\<close>; \<open>isspace c\<close> tells whether
  \<open>str.strip()\<close> removes the character \<open>c\<close>; \<open>nonzero n\<close> is the truth value of the
  number \<open>n\<close>; \<open>fmt_div n k\<close> is the text of the f-string \<open>{n/k:.1f}\<close>, or the exception
  the division raises (\<open>OverflowError\<close> for an integer beyond the range of floats).
  The functions below that need them take the runtime as their first argument.
\<close>

record 'n runtime =
  lower :: "str \<Rightarrow> str"
  isspace :: "nat \<Rightarrow> bool"
  nonzero :: "'n \<Rightarrow> bool"
  fmt_div :: "'n \<Rightarrow> int \<Rightarrow> exn + str"

text \<open>Sequencing: an exception in the first computation skips the second.\<close>

definition and_then :: "exn + 'a \<Rightarrow> ('a \<Rightarrow> exn + 'b) \<Rightarrow> exn + 'b" where
  "and_then r f = (case r of Inl e \<Rightarrow> Inl e | Inr v \<Rightarrow> f v)"

text \<open>The handler \<open>except KeyError: return handler\<close>; other exceptions pass.\<close>

definition except_KeyError :: "exn + 'a \<Rightarrow> 'a \<Rightarrow> exn + 'a" where
  "except_KeyError r handler = (case r of Inl KeyError \<Rightarrow> Inr handler | _ \<Rightarrow> r)"

text \<open>\<open>x.get(key, dflt)\<close>: only a dictionary has the method.\<close>

fun py_get :: "'n pyval \<Rightarrow> str \<Rightarrow> 'n pyval \<Rightarrow> exn + 'n pyval" where
  "py_get (PDict d) key dflt = Inr (case map_of d key of None \<Rightarrow> dflt | Some v \<Rightarrow> v)"
| "py_get _ key dflt = Inl AttributeError"

text \<open>\<open>x[key]\<close> with a text key: a list or a text wants an integer, the others have no
  subscript.\<close>

fun subscript :: "'n pyval \<Rightarrow> str \<Rightarrow> exn + 'n pyval" where
  "subscript (PDict d) key = (case map_of d key of None \<Rightarrow> Inl KeyError | Some v \<Rightarrow> Inr v)"
| "subscript _ key = Inl TypeError"

text \<open>\<open>x[0]\<close>: the keys of the dictionaries here are texts, so 0 is never a key.\<close>

fun first :: "'n pyval \<Rightarrow> exn + 'n pyval" where
  "first (PList []) = Inl IndexError"
| "first (PList (v # vs)) = Inr v"
| "first (PStr []) = Inl IndexError"
| "first (PStr (c # cs)) = Inr (PStr [c])"
| "first (PDict d) = Inl KeyError"
| "first _ = Inl TypeError"

text \<open>The values that \<open>for step in x\<close> runs over.\<close>

fun iterate :: "'n pyval \<Rightarrow> exn + 'n pyval list" where
  "iterate (PList vs) = Inr vs"
| "iterate (PDict d) = Inr (map (\<lambda>(k, v). PStr k) d)"
| "iterate (PStr s) = Inr (map (\<lambda>c. PStr [c]) s)"
| "iterate _ = Inl TypeError"

text \<open>
  The f-string \<open>{x/k:.1f}\<close> on a value \<open>x\<close>, for the two divisors of the source, 1000 and
  60: a boolean counts as 0 or 1, and 1/1000 and 1/60 both print as \<open>0.0\<close>.
\<close>

fun div_fmt :: "'n runtime \<Rightarrow> 'n pyval \<Rightarrow> int \<Rightarrow> exn + str" where
  "div_fmt rt (PNum n) k = fmt_div rt n k"
| "div_fmt rt (PBool b) k = Inr (lit ''0.0'')"
| "div_fmt rt _ k = Inl TypeError"

text \<open>Truth value of a value, as \<open>not x\<close> and \<open>if x\<close> take it.\<close>

fun truthy :: "'n runtime \<Rightarrow> 'n pyval \<Rightarrow> bool" where
  "truthy rt PNone = False"
| "truthy rt (PBool b) = b"
| "truthy rt (PNum n) = nonzero rt n"
| "truthy rt (PStr s) = (s \<noteq> [])"
| "truthy rt (PList vs) = (vs \<noteq> [])"
| "truthy rt (PDict d) = (d \<noteq> [])"

text \<open>\<open>key in x\<close> for a text \<open>key\<close>: a key of a dictionary, a part of a text, an element
  of a list.\<close>

fun py_in :: "str \<Rightarrow> 'n pyval \<Rightarrow> exn + bool" where
  "py_in key (PDict d) = Inr (map_of d key \<noteq> None)"
| "py_in key (PStr s) = Inr (sublist key s)"
| "py_in key (PList vs) = Inr (PStr key \<in> set vs)"
| "py_in key _ = Inl TypeError"

section \<open>Route assembly (\<open>get_safe_route\<close>, app.py lines 77 to 117)\<close>

text \<open>
  What lines 81 to 83 or 62 to 68 (the request, \<open>raise_for_status\<close>, \<open>response.json()\<close>)
  end with: an exception of the class \<open>RequestException\<close>, with its text; a
  \<open>json.JSONDecodeError\<close> that is not a \<open>RequestException\<close>; or the parsed body.
\<close>

datatype 'n http = RequestException str | NotJSON | Body "'n pyval"

definition simulated_blockages :: "(str \<times> str list) list" where
  "simulated_blockages =
     [(lit ''flood'', [lit ''Main Street'', lit ''River Road'']),
      (lit ''fire'', [lit ''Forest Highway'', lit ''Mountain Pass'']),
      (lit ''earthquake'', [lit ''Bridge Approach'', lit ''Tunnel Road''])]"

text \<open>Line 97: \<open>simulated_blockages.get(disaster_type.lower(), [])\<close>.\<close>

definition blocked_roads :: "'n runtime \<Rightarrow> str \<Rightarrow> str list" where
  "blocked_roads rt disaster_type =
     (case map_of simulated_blockages (lower rt disaster_type) of
        None \<Rightarrow> [] | Some roads \<Rightarrow> roads)"

text \<open>The body of the loop, lines 96 to 106: the dictionary appended for one step.\<close>

definition route_step :: "'n runtime \<Rightarrow> str \<Rightarrow> 'n pyval \<Rightarrow> exn + 'n pyval" where
  "route_step rt disaster_type step =
     and_then (py_get step (lit ''name'') (PStr (lit ''Unnamed Road''))) (\<lambda>road_name.
     let blockage = road_name \<in> set (map PStr (blocked_roads rt disaster_type)) in
     and_then (and_then (subscript step (lit ''maneuver'')) (\<lambda>m. subscript m (lit ''instruction'')))
       (\<lambda>instruction.
     and_then (and_then (subscript step (lit ''distance'')) (\<lambda>d. div_fmt rt d 1000)) (\<lambda>distance.
     and_then (and_then (subscript step (lit ''duration'')) (\<lambda>d. div_fmt rt d 60)) (\<lambda>duration.
     Inr (PDict
       [(lit ''instruction'', instruction),
        (lit ''distance'', PStr (distance @ lit '' km'')),
        (lit ''duration'', PStr (duration @ lit '' min'')),
        (lit ''road'', road_name),
        (lit ''blocked'', PBool blockage),
        (lit ''alternative'', if blockage then PStr (lit ''Use Service Lane'') else PNone)])))))"

text \<open>The loop of lines 94 to 106; \<open>route_steps\<close> is the list built so far.\<close>

fun route_steps_loop ::
  "'n runtime \<Rightarrow> str \<Rightarrow> 'n pyval list \<Rightarrow> 'n pyval list \<Rightarrow> exn + 'n pyval list" where
  "route_steps_loop rt disaster_type [] route_steps = Inr route_steps"
| "route_steps_loop rt disaster_type (step # rest) route_steps =
     and_then (route_step rt disaster_type step) (\<lambda>entry.
     route_steps_loop rt disaster_type rest (route_steps @ [entry]))"

text \<open>\<open>route_data['routes'][0]\<close>, and the steps that line 95 runs over.\<close>

definition first_route :: "'n pyval \<Rightarrow> exn + 'n pyval" where
  "first_route route_data = and_then (subscript route_data (lit ''routes'')) first"

definition leg_steps :: "'n pyval \<Rightarrow> exn + 'n pyval list" where
  "leg_steps route_data =
     and_then (and_then (and_then (and_then (first_route route_data)
       (\<lambda>route. subscript route (lit ''legs''))) first)
       (\<lambda>leg. subscript leg (lit ''steps''))) iterate"

text \<open>Lines 85 to 113, what the \<open>try\<close> block does with the parsed body.\<close>

definition route_body :: "'n runtime \<Rightarrow> 'n pyval \<Rightarrow> str \<Rightarrow> exn + 'n pyval" where
  "route_body rt route_data disaster_type =
     and_then (py_get route_data (lit ''code'') PNone) (\<lambda>code.
     if code \<noteq> PStr (lit ''Ok'') then Inr (PDict [(lit ''error'', PStr (lit ''No route found''))])
     else
       and_then (leg_steps route_data) (\<lambda>steps.
       and_then (route_steps_loop rt disaster_type steps []) (\<lambda>route_steps.
       and_then (and_then (first_route route_data) (\<lambda>route. subscript route (lit ''distance'')))
         (\<lambda>distance.
       and_then (and_then (first_route route_data) (\<lambda>route. subscript route (lit ''duration'')))
         (\<lambda>duration.
       and_then (and_then (first_route route_data) (\<lambda>route. subscript route (lit ''geometry'')))
         (\<lambda>polyline.
       Inr (PDict
         [(lit ''distance'', distance),
          (lit ''duration'', duration),
          (lit ''steps'', PList route_steps),
          (lit ''polyline'', polyline)])))))))"

text \<open>
  The function. The two coordinates only go into the address of the request, so the
  request is given by its outcome. The handlers of lines 114 to 117 catch
  \<open>RequestException\<close> and \<open>KeyError\<close>; any other exception leaves the function.
\<close>

definition get_safe_route :: "'n runtime \<Rightarrow> 'n http \<Rightarrow> str \<Rightarrow> exn + 'n pyval" where
  "get_safe_route rt response disaster_type =
     (case response of
        RequestException e \<Rightarrow>
          Inr (PDict [(lit ''error'', PStr (lit ''Routing service error: '' @ e))])
      | NotJSON \<Rightarrow> Inl JSONDecodeError
      | Body route_data \<Rightarrow>
          except_KeyError (route_body rt route_data disaster_type)
            (PDict [(lit ''error'', PStr (lit ''Invalid route data format''))]))"

section \<open>The submission flow (app.py lines 54 to 75 and 213 to 251)\<close>

text \<open>\<open>get_nearby_resources\<close>: both handlers return the empty list; an exception of
  \<open>data.get\<close> is not caught.\<close>

definition get_nearby_resources :: "'n http \<Rightarrow> exn + 'n pyval" where
  "get_nearby_resources response =
     (case response of
        RequestException e \<Rightarrow> Inr (PList [])
      | NotJSON \<Rightarrow> Inr (PList [])
      | Body data \<Rightarrow> py_get data (lit ''elements'') (PList []))"

text \<open>
  The flow calls three functions, each of which is the only place where one outside
  service is asked: \<open>get_nearby_resources\<close> (the map-data service, line 62),
  \<open>get_safe_route\<close> (the routing service, line 81) and \<open>analyze_emergency\<close> (the
  text-generation client, lines 166 to 175). The flow is modelled with the list of the
  calls it has made, in order, and with how it ends: \<open>st.stop()\<close> after a message, an
  exception that nothing catches, or the display of the results from line 251 on.
\<close>

datatype call = Lookup | Routing | Generation

datatype message = DescribeEmergency | NoShelters | RoutingError | AnalysisError

datatype outcome = Stopped message | Raised exn | Rendering

text \<open>Lines 225 and 226.\<close>

definition shelter_coords :: "'n pyval \<Rightarrow> exn + 'n pyval \<times> 'n pyval" where
  "shelter_coords shelters =
     and_then (first shelters) (\<lambda>best_shelter.
     and_then (subscript best_shelter (lit ''lat'')) (\<lambda>lat.
     and_then (subscript best_shelter (lit ''lon'')) (\<lambda>lon.
     Inr (lat, lon))))"

text \<open>Lines 236 and 237, 247 and 248: the message reads \<open>d['error']\<close>, then the run stops.\<close>

definition error_message :: "'n pyval \<Rightarrow> message \<Rightarrow> outcome" where
  "error_message d m =
     (case subscript d (lit ''error'') of Inl e \<Rightarrow> Raised e | Inr text \<Rightarrow> Stopped m)"

text \<open>
  Lines 213 to 251. \<open>overpass\<close> and \<open>osrm\<close> are the outcomes of the two requests;
  \<open>generated\<close> is what the call of \<open>analyze_emergency\<close> returns, or the exception it lets
  through. The description is blank when \<open>strip()\<close> leaves nothing of it.
\<close>

definition submitted ::
  "'n runtime \<Rightarrow> str \<Rightarrow> str \<Rightarrow> 'n http \<Rightarrow> 'n http \<Rightarrow> exn + 'n pyval \<Rightarrow> call list \<times> outcome" where
  "submitted rt emergency_desc disaster_type overpass osrm generated =
     (if list_all (isspace rt) emergency_desc then ([], Stopped DescribeEmergency)
      else
        let calls = [Lookup] in
        case get_nearby_resources overpass of
          Inl e \<Rightarrow> (calls, Raised e)
        | Inr shelters \<Rightarrow>
            if \<not> truthy rt shelters then (calls, Stopped NoShelters)
            else
              case shelter_coords shelters of
                Inl e \<Rightarrow> (calls, Raised e)
              | Inr coords \<Rightarrow>
                  let calls = calls @ [Routing] in
                  case get_safe_route rt osrm (lower rt disaster_type) of
                    Inl e \<Rightarrow> (calls, Raised e)
                  | Inr route_data \<Rightarrow>
                      case py_in (lit ''error'') route_data of
                        Inl e \<Rightarrow> (calls, Raised e)
                      | Inr True \<Rightarrow> (calls, error_message route_data RoutingError)
                      | Inr False \<Rightarrow>
                          let calls = calls @ [Generation] in
                          case generated of
                            Inl e \<Rightarrow> (calls, Raised e)
                          | Inr analysis \<Rightarrow>
                              case py_in (lit ''error'') analysis of
                                Inl e \<Rightarrow> (calls, Raised e)
                              | Inr True \<Rightarrow> (calls, error_message analysis AnalysisError)
                              | Inr False \<Rightarrow> (calls, Rendering))"

text \<open>
  When a stage has not failed: the lookup returned a non-empty value from which the
  coordinates of the first shelter can be read; the route has no \<open>error\<close>; the analysis
  has no \<open>error\<close>.
\<close>

definition found_shelters :: "'n runtime \<Rightarrow> 'n http \<Rightarrow> bool" where
  "found_shelters rt overpass =
     (case get_nearby_resources overpass of
        Inl e \<Rightarrow> False
      | Inr shelters \<Rightarrow> truthy rt shelters \<and> \<not> isl (shelter_coords shelters))"

definition found_route :: "'n runtime \<Rightarrow> 'n http \<Rightarrow> str \<Rightarrow> bool" where
  "found_route rt osrm disaster_type =
     (case get_safe_route rt osrm (lower rt disaster_type) of
        Inl e \<Rightarrow> False
      | Inr route_data \<Rightarrow> py_in (lit ''error'') route_data = Inr False)"

definition found_analysis :: "exn + 'n pyval \<Rightarrow> bool" where
  "found_analysis generated =
     (case generated of
        Inl e \<Rightarrow> False
      | Inr analysis \<Rightarrow> py_in (lit ''error'') analysis = Inr False)"

section \<open>Sample inputs\<close>

text \<open>
  A runtime for the concrete runs below, with integers as numbers. The runs use ASCII
  texts, on which \<open>lower()\<close> changes the letters A to Z only, and the quotients 1500/1000
  and 90/60, which Python prints as \<open>1.5\<close>.
\<close>

definition ascii_lower :: "str \<Rightarrow> str" where
  "ascii_lower s = map (\<lambda>c. if 65 \<le> c \<and> c \<le> 90 then c + 32 else c) s"

definition sample_runtime :: "int runtime" where
  "sample_runtime =
     \<lparr>lower = ascii_lower, isspace = (\<lambda>c. c = 32), nonzero = (\<lambda>n. n \<noteq> 0),
      fmt_div = (\<lambda>n k. Inr (lit ''1.5''))\<rparr>"

definition sample_step :: "string \<Rightarrow> int pyval" where
  "sample_step road =
     PDict [(lit ''name'', PStr (lit road)),
            (lit ''maneuver'', PDict [(lit ''instruction'', PStr (lit ''Turn left''))]),
            (lit ''distance'', PNum 1500),
            (lit ''duration'', PNum 90)]"

definition sample_route :: "string \<Rightarrow> int pyval" where
  "sample_route code =
     PDict [(lit ''code'', PStr (lit code)),
            (lit ''routes'', PList [PDict
               [(lit ''legs'', PList [PDict
                   [(lit ''steps'', PList [sample_step ''Main Street'', sample_step ''Oak Ave''])]]),
                (lit ''distance'', PNum 3000),
                (lit ''duration'', PNum 180),
                (lit ''geometry'', PStr (lit ''_p~iF~ps|U''))]])]"

definition sample_no_route :: "int pyval" where
  "sample_no_route = PDict [(lit ''code'', PStr (lit ''NoRoute'')), (lit ''routes'', PList [])]"

definition sample_entry :: "string \<Rightarrow> bool \<Rightarrow> int pyval" where
  "sample_entry road blockage =
     PDict [(lit ''instruction'', PStr (lit ''Turn left'')),
            (lit ''distance'', PStr (lit ''1.5 km'')),
            (lit ''duration'', PStr (lit ''1.5 min'')),
            (lit ''road'', PStr (lit road)),
            (lit ''blocked'', PBool blockage),
            (lit ''alternative'', if blockage then PStr (lit ''Use Service Lane'') else PNone)]"

definition sample_result :: "bool \<Rightarrow> int pyval" where
  "sample_result main_street_blocked =
     PDict [(lit ''distance'', PNum 3000),
            (lit ''duration'', PNum 180),
            (lit ''steps'', PList
               [sample_entry ''Main Street'' main_street_blocked, sample_entry ''Oak Ave'' False]),
            (lit ''polyline'', PStr (lit ''_p~iF~ps|U''))]"

definition sample_shelters :: "int pyval" where
  "sample_shelters =
     PDict [(lit ''elements'', PList [PDict [(lit ''lat'', PNum 13), (lit ''lon'', PNum 77)]])]"

section \<open>Properties of the decoder\<close>

lemma groups_closed_Nil: "groups_closed [] = 0"
  by (simp add: groups_closed_def)

lemma groups_closed_Cons:
  "groups_closed (c # s) = (if closes_group c then Suc (groups_closed s) else groups_closed s)"
  by (simp add: groups_closed_def)

lemma groups_closed_append: "groups_closed (s @ t) = groups_closed s + groups_closed t"
  by (simp add: groups_closed_def)

text \<open>
  The group reader always leaves the loop: by \<open>return\<close> when no closing character
  remains, by \<open>break\<close> just behind the next closing character otherwise. The induction is
  on the distance of the cursor from the end of the text.
\<close>

lemma decode_group_result:
  "\<exists>g. decode_group s i sh r = Some g \<and>
     (case g of
        Return \<Rightarrow> groups_closed (drop i s) = 0
      | Break i' r' \<Rightarrow> i < i' \<and> i' \<le> length s \<and>
          groups_closed (drop i s) = Suc (groups_closed (drop i' s)))"
proof (induction "length s - i" arbitrary: i sh r rule: less_induct)
  case less
  show ?case
  proof (cases "length s \<le> i")
    case True
    then show ?thesis
      by (subst decode_group.simps) (simp add: groups_closed_Nil)
  next
    case False
    then have lt: "i < length s" by simp
    then have dr: "drop i s = s ! i # drop (Suc i) s"
      by (simp add: Cons_nth_drop_Suc)
    show ?thesis
    proof (cases "closes_group (s ! i)")
      case True
      with lt dr show ?thesis
        by (subst decode_group.simps) (simp add: groups_closed_Cons closes_group_def)
    next
      case open_group: False
      from lt have "length s - Suc i < length s - i" by simp
      from less [OF this, of "sh + 5" "r OR push_bit sh ((int (s ! i) - 63) AND 0x1f)"]
      obtain g where g: "decode_group s (Suc i) (sh + 5)
            (r OR push_bit sh ((int (s ! i) - 63) AND 0x1f)) = Some g"
        and cg: "case g of
            Return \<Rightarrow> groups_closed (drop (Suc i) s) = 0
          | Break i' r' \<Rightarrow> Suc i < i' \<and> i' \<le> length s \<and>
              groups_closed (drop (Suc i) s) = Suc (groups_closed (drop i' s))"
        by blast
      have "decode_group s i sh r = Some g"
        using lt open_group g by (subst decode_group.simps) (simp add: closes_group_def)
      moreover have "case g of
            Return \<Rightarrow> groups_closed (drop i s) = 0
          | Break i' r' \<Rightarrow> i < i' \<and> i' \<le> length s \<and>
              groups_closed (drop i s) = Suc (groups_closed (drop i' s))"
        using cg open_group dr by (cases g) (simp_all add: groups_closed_Cons)
      ultimately show ?thesis by blast
    qed
  qed
qed

lemma for_coord_result:
  "\<exists>f. for_coord s i cs = Some f \<and>
     (case f of
        None \<Rightarrow> groups_closed (drop i s) < length cs
      | Some i' \<Rightarrow> i \<le> i' \<and> (cs \<noteq> [] \<longrightarrow> i < i') \<and>
          groups_closed (drop i s) = length cs + groups_closed (drop i' s))"
proof (induction cs arbitrary: i)
  case Nil
  then show ?case by simp
next
  case (Cons c cs)
  obtain g where g: "decode_group s i 0 0 = Some g"
    and cg: "case g of
        Return \<Rightarrow> groups_closed (drop i s) = 0
      | Break i' r' \<Rightarrow> i < i' \<and> i' \<le> length s \<and>
          groups_closed (drop i s) = Suc (groups_closed (drop i' s))"
    using decode_group_result [of s i 0 0] by blast
  show ?case
  proof (cases g)
    case Return
    with g cg show ?thesis by simp
  next
    case (Break i1 r1)
    from Cons.IH [of i1] obtain f where f: "for_coord s i1 cs = Some f"
      and cf: "case f of
        None \<Rightarrow> groups_closed (drop i1 s) < length cs
      | Some i' \<Rightarrow> i1 \<le> i' \<and> (cs \<noteq> [] \<longrightarrow> i1 < i') \<and>
          groups_closed (drop i1 s) = length cs + groups_closed (drop i' s)"
      by blast
    have "for_coord s i (c # cs) = Some f"
      using g Break f by simp
    moreover have "case f of
        None \<Rightarrow> groups_closed (drop i s) < length (c # cs)
      | Some i' \<Rightarrow> i \<le> i' \<and> (c # cs \<noteq> [] \<longrightarrow> i < i') \<and>
          groups_closed (drop i s) = length (c # cs) + groups_closed (drop i' s)"
      using cg cf Break by (cases f) auto
    ultimately show ?thesis by blast
  qed
qed

text \<open>
  The outer loop appends one pair for every two groups that the rest of the text closes,
  and every pair it appends is the pair \<open>(lat, lng)\<close> it was started with.
\<close>

lemma decode_loop_result:
  "decode_loop s i lat lng acc =
     Some (acc @ replicate (groups_closed (drop i s) div 2) (lat, lng))"
proof (induction "length s - i" arbitrary: i acc rule: less_induct)
  case less
  show ?case
  proof (cases "i < length s")
    case False
    then show ?thesis
      by (subst decode_loop.simps) (simp add: groups_closed_Nil)
  next
    case True
    obtain f where f: "for_coord s i [lat, lng] = Some f"
      and cf: "case f of
        None \<Rightarrow> groups_closed (drop i s) < length [lat, lng]
      | Some i' \<Rightarrow> i \<le> i' \<and> ([lat, lng] \<noteq> [] \<longrightarrow> i < i') \<and>
          groups_closed (drop i s) = length [lat, lng] + groups_closed (drop i' s)"
      using for_coord_result [of s i "[lat, lng]"] by blast
    show ?thesis
    proof (cases f)
      case None
      with cf have "groups_closed (drop i s) div 2 = 0" by simp
      with True f None show ?thesis
        by (subst decode_loop.simps) simp
    next
      case (Some i')
      with cf have adv: "i < i'"
        and cnt: "groups_closed (drop i s) = 2 + groups_closed (drop i' s)"
        by simp_all
      from adv have "length s - i' < length s - i" using True by simp
      from less [OF this, of "acc @ [(lat, lng)]"]
      have "decode_loop s i' lat lng (acc @ [(lat, lng)]) =
          Some ((acc @ [(lat, lng)]) @ replicate (groups_closed (drop i' s) div 2) (lat, lng))" .
      with True f Some cnt show ?thesis
        by (subst decode_loop.simps) simp
    qed
  qed
qed

lemma decode_polyline_result:
  "decode_polyline s = Some (replicate (groups_closed s div 2) (0, 0))"
  by (simp add: decode_polyline_def decode_loop_result groups_closed_Nil)

text \<open>
  Claim C1. The specification asks that decoding reproduces the encoded coordinates,
  each decoded delta being added to the accumulator of its axis, and gives the example
  \<open>_p~iF~ps|U_ulLnnqC_mqNvxq`@\<close> with the coordinates (38.5, -120.2), (40.7, -120.95),
  (43.252, -126.453). The source adds the delta to the loop variable \<open>coord\<close> and never to
  \<open>lat\<close> or \<open>lng\<close>: on the example it returns three times the pair (0, 0), while the
  decoder worded as the specification returns 3850000, -12020000 and so on, in units of
  1e-5 degrees, which are the coordinates of the example.
\<close>

theorem decode_polyline_example_zero:
  "decode_polyline (lit ''_p~iF~ps|U_ulLnnqC_mqNvxq`@'') = Some [(0, 0), (0, 0), (0, 0)] \<and>
   spec_decode (lit ''_p~iF~ps|U_ulLnnqC_mqNvxq`@'') =
     Some [(3850000, - 12020000), (4070000, - 12095000), (4325200, - 12645300)]"
  by code_simp

text \<open>
  A text cut in the middle of a group is \<open>p @ t\<close>, where \<open>p\<close> holds the pairs that are
  complete (it closes an even number of groups) and \<open>t\<close> is the rest of the pair that
  was cut (it closes at most one group). The decoder returns on it, with as many
  coordinates as for \<open>p\<close> alone, one for each complete pair.
\<close>

lemma decode_polyline_cut_pairs:
  assumes "even (groups_closed p)" and "groups_closed t \<le> 1"
  shows "\<exists>cs. decode_polyline (p @ t) = Some cs \<and> decode_polyline p = Some cs \<and>
           length cs = groups_closed p div 2 \<and>
           (\<forall>u. \<exists>more. decode_polyline (p @ t @ u) = Some (cs @ more))"
proof -
  from assms have cut: "(groups_closed p + groups_closed t) div 2 = groups_closed p div 2"
    by (auto elim!: evenE)
  have longer: "\<exists>more. replicate ((groups_closed p + k) div 2) (0::int, 0::int) =
      replicate (groups_closed p div 2) (0, 0) @ more" for k
  proof -
    have "groups_closed p div 2 \<le> (groups_closed p + k) div 2"
      by (rule div_le_mono) simp
    then obtain d where "(groups_closed p + k) div 2 = groups_closed p div 2 + d"
      using le_Suc_ex by blast
    then show ?thesis
      by (simp add: replicate_add)
  qed
  show ?thesis
    using cut longer [of "groups_closed t + groups_closed u" for u]
    by (simp add: decode_polyline_result groups_closed_append add.assoc)
qed

text \<open>
  Claim C6. The specification asks that a text cut in the middle of a group decodes,
  without an error, to exactly the coordinates that were decoded in full before the
  cut. The source returns without an error and with the right number of coordinates,
  but not with the coordinates: on the example cut in its third group,
  \<open>_p~iF~ps|U_ul\<close>, it returns the pair (0, 0), while the pair decoded before the cut is
  (38.5, -120.2), which the decoder worded as the specification returns, in units of
  1e-5 degrees, on the cut text as on its complete first pair. The cause is that of
  claim C1: line 140 adds the delta to the loop variable and never to \<open>lat\<close> or \<open>lng\<close>.
\<close>

theorem decode_polyline_cut_zero:
  "decode_polyline (lit ''_p~iF~ps|U_ul'') = Some [(0, 0)] \<and>
   spec_decode (lit ''_p~iF~ps|U_ul'') = Some [(3850000, - 12020000)] \<and>
   spec_decode (lit ''_p~iF~ps|U'') = Some [(3850000, - 12020000)]"
  by code_simp

text \<open>
  Claim C9. On the empty text the decoder returns the empty sequence of coordinates; it
  leaves through the test of line 125.
\<close>

theorem decode_polyline_empty: "decode_polyline [] = Some []"
  by (simp add: decode_polyline_def)

text \<open>
  Claim C10. The decoder returns on every text. Whatever the cursor, the shift and the
  partial result, the inner loop leaves either by \<open>return\<close> or by \<open>break\<close>, and in the
  second case the cursor has moved forward and is still within the text.
\<close>

theorem decode_polyline_terminates:
  "(\<exists>coordinates. decode_polyline polyline_str = Some coordinates) \<and>
   (\<exists>g. decode_group polyline_str index shift result = Some g \<and>
      (case g of Return \<Rightarrow> True
       | Break index' result' \<Rightarrow> index < index' \<and> index' \<le> length polyline_str))"
proof -
  obtain g where "decode_group polyline_str index shift result = Some g"
    and "case g of
        Return \<Rightarrow> groups_closed (drop index polyline_str) = 0
      | Break i' r' \<Rightarrow> index < i' \<and> i' \<le> length polyline_str \<and>
          groups_closed (drop index polyline_str) = Suc (groups_closed (drop i' polyline_str))"
    using decode_group_result [of polyline_str index shift result] by blast
  then have "\<exists>g. decode_group polyline_str index shift result = Some g \<and>
      (case g of Return \<Rightarrow> True
       | Break index' result' \<Rightarrow> index < index' \<and> index' \<le> length polyline_str)"
    by (cases g) simp_all
  then show ?thesis
    by (simp add: decode_polyline_result)
qed

section \<open>Properties of route assembly\<close>

lemma except_KeyError_Inr:
  "except_KeyError r h = Inr v \<Longrightarrow> r = Inr v \<or> (r = Inl KeyError \<and> v = h)"
  by (auto simp: except_KeyError_def split: sum.splits exn.splits)

lemma and_then_Inr:
  "and_then r f = Inr v \<longleftrightarrow> (\<exists>x. r = Inr x \<and> f x = Inr v)"
  by (cases r) (simp_all add: and_then_def)

text \<open>When the loop ends without an exception, it has appended one entry for each step,
  in order.\<close>

lemma route_steps_loop_Inr:
  "route_steps_loop rt dt steps acc = Inr out \<Longrightarrow>
     \<exists>entries. out = acc @ entries \<and>
       list_all2 (\<lambda>step entry. route_step rt dt step = Inr entry) steps entries"
proof (induction steps arbitrary: acc)
  case Nil
  then show ?case by simp
next
  case (Cons step rest)
  from Cons.prems obtain entry where e: "route_step rt dt step = Inr entry"
    and r: "route_steps_loop rt dt rest (acc @ [entry]) = Inr out"
    by (auto simp: and_then_Inr)
  from Cons.IH [OF r] obtain entries where "out = (acc @ [entry]) @ entries"
    and "list_all2 (\<lambda>step entry. route_step rt dt step = Inr entry) rest entries"
    by blast
  with e have "out = acc @ (entry # entries) \<and>
      list_all2 (\<lambda>step entry. route_step rt dt step = Inr entry) (step # rest) (entry # entries)"
    by simp
  then show ?case by blast
qed

lemma route_step_Inr:
  assumes "route_step rt dt step = Inr entry"
  shows "\<exists>road_name instruction d sd t st.
     py_get step (lit ''name'') (PStr (lit ''Unnamed Road'')) = Inr road_name \<and>
     subscript step (lit ''distance'') = Inr d \<and> div_fmt rt d 1000 = Inr sd \<and>
     subscript step (lit ''duration'') = Inr t \<and> div_fmt rt t 60 = Inr st \<and>
     entry = PDict
       [(lit ''instruction'', instruction),
        (lit ''distance'', PStr (sd @ lit '' km'')),
        (lit ''duration'', PStr (st @ lit '' min'')),
        (lit ''road'', road_name),
        (lit ''blocked'', PBool (road_name \<in> set (map PStr (blocked_roads rt dt)))),
        (lit ''alternative'',
           if road_name \<in> set (map PStr (blocked_roads rt dt))
           then PStr (lit ''Use Service Lane'') else PNone)]"
  using assms unfolding route_step_def Let_def and_then_Inr by blast

text \<open>A result with a \<open>steps\<close> entry comes from a parsed body, and its steps are what
  the loop built.\<close>

lemma route_body_steps:
  assumes "route_body rt route_data dt = Inr result"
    and "subscript result (lit ''steps'') = Inr v"
  shows "\<exists>steps route_steps. leg_steps route_data = Inr steps \<and> v = PList route_steps \<and>
     route_steps_loop rt dt steps [] = Inr route_steps"
  using assms
  by (auto simp: route_body_def and_then_Inr lit_def split: if_splits)

lemma get_safe_route_steps:
  assumes "get_safe_route rt response dt = Inr result"
    and "subscript result (lit ''steps'') = Inr v"
  shows "\<exists>route_data steps route_steps. response = Body route_data \<and>
     leg_steps route_data = Inr steps \<and> v = PList route_steps \<and>
     route_steps_loop rt dt steps [] = Inr route_steps"
proof (cases response)
  case (RequestException e)
  with assms show ?thesis by (auto simp add: get_safe_route_def lit_def)
next
  case NotJSON
  with assms show ?thesis by (simp add: get_safe_route_def)
next
  case (Body route_data)
  with assms(1) have "route_body rt route_data dt = Inr result \<or>
      result = PDict [(lit ''error'', PStr (lit ''Invalid route data format''))]"
    using except_KeyError_Inr by (fastforce simp: get_safe_route_def)
  then show ?thesis
  proof
    assume "route_body rt route_data dt = Inr result"
    from route_body_steps [OF this assms(2)] Body show ?thesis by blast
  next
    assume "result = PDict [(lit ''error'', PStr (lit ''Invalid route data format''))]"
    with assms(2) show ?thesis by (simp add: lit_def)
  qed
qed

lemma get_safe_route_entry:
  assumes "get_safe_route rt response dt = Inr result"
    and "subscript result (lit ''steps'') = Inr (PList route_steps)"
    and "entry \<in> set route_steps"
  shows "\<exists>step. route_step rt dt step = Inr entry"
proof -
  from get_safe_route_steps [OF assms(1,2)] obtain steps where
    "route_steps_loop rt dt steps [] = Inr route_steps"
    by auto
  from route_steps_loop_Inr [OF this]
  have "list_all2 (\<lambda>step entry. route_step rt dt step = Inr entry) steps route_steps"
    by simp
  with assms(3) show ?thesis
    by (auto simp: list_all2_conv_all_nth in_set_conv_nth)
qed

text \<open>
  The whole of a result with steps: the totals and the geometry are read from the first
  route as they are, and every entry is the dictionary of six fields that the loop body
  builds from its step.
\<close>

lemma route_body_result:
  assumes "route_body rt route_data dt = Inr result"
    and "subscript result (lit ''steps'') = Inr v"
  shows "\<exists>route steps entries total_distance total_duration geometry.
     first_route route_data = Inr route \<and>
     subscript route (lit ''distance'') = Inr total_distance \<and>
     subscript route (lit ''duration'') = Inr total_duration \<and>
     subscript route (lit ''geometry'') = Inr geometry \<and>
     leg_steps route_data = Inr steps \<and>
     route_steps_loop rt dt steps [] = Inr entries \<and>
     v = PList entries \<and>
     result = PDict
       [(lit ''distance'', total_distance),
        (lit ''duration'', total_duration),
        (lit ''steps'', PList entries),
        (lit ''polyline'', geometry)]"
  using assms
  by (auto simp: route_body_def and_then_Inr lit_def split: if_splits)

lemma get_safe_route_result:
  assumes "get_safe_route rt response dt = Inr result"
    and "subscript result (lit ''steps'') = Inr v"
  shows "\<exists>route_data route steps entries total_distance total_duration geometry.
     response = Body route_data \<and>
     first_route route_data = Inr route \<and>
     subscript route (lit ''distance'') = Inr total_distance \<and>
     subscript route (lit ''duration'') = Inr total_duration \<and>
     subscript route (lit ''geometry'') = Inr geometry \<and>
     leg_steps route_data = Inr steps \<and>
     route_steps_loop rt dt steps [] = Inr entries \<and>
     v = PList entries \<and>
     result = PDict
       [(lit ''distance'', total_distance),
        (lit ''duration'', total_duration),
        (lit ''steps'', PList entries),
        (lit ''polyline'', geometry)]"
proof (cases response)
  case (RequestException e)
  with assms show ?thesis by (auto simp add: get_safe_route_def lit_def)
next
  case NotJSON
  with assms show ?thesis by (simp add: get_safe_route_def)
next
  case (Body route_data)
  with assms(1) have "route_body rt route_data dt = Inr result \<or>
      result = PDict [(lit ''error'', PStr (lit ''Invalid route data format''))]"
    using except_KeyError_Inr by (fastforce simp: get_safe_route_def)
  then show ?thesis
  proof
    assume "route_body rt route_data dt = Inr result"
    from route_body_result [OF this assms(2)] Body show ?thesis by blast
  next
    assume "result = PDict [(lit ''error'', PStr (lit ''Invalid route data format''))]"
    with assms(2) show ?thesis by (simp add: lit_def)
  qed
qed

lemma route_step_fields:
  assumes "route_step rt dt step = Inr entry"
  shows "\<exists>road_name maneuver instruction d sd t st.
     py_get step (lit ''name'') (PStr (lit ''Unnamed Road'')) = Inr road_name \<and>
     subscript step (lit ''maneuver'') = Inr maneuver \<and>
     subscript maneuver (lit ''instruction'') = Inr instruction \<and>
     subscript step (lit ''distance'') = Inr d \<and> div_fmt rt d 1000 = Inr sd \<and>
     subscript step (lit ''duration'') = Inr t \<and> div_fmt rt t 60 = Inr st \<and>
     entry = PDict
       [(lit ''instruction'', instruction),
        (lit ''distance'', PStr (sd @ lit '' km'')),
        (lit ''duration'', PStr (st @ lit '' min'')),
        (lit ''road'', road_name),
        (lit ''blocked'', PBool (road_name \<in> set (map PStr (blocked_roads rt dt)))),
        (lit ''alternative'',
           if road_name \<in> set (map PStr (blocked_roads rt dt))
           then PStr (lit ''Use Service Lane'') else PNone)]"
  using assms unfolding route_step_def Let_def and_then_Inr by blast

text \<open>The disaster type is only used through \<open>lower\<close>.\<close>

lemma route_steps_loop_lower:
  assumes "lower rt d1 = lower rt d2"
  shows "route_steps_loop rt d1 steps acc = route_steps_loop rt d2 steps acc"
proof (induction steps arbitrary: acc)
  case Nil
  show ?case by simp
next
  case (Cons step rest)
  from assms have "route_step rt d1 step = route_step rt d2 step"
    by (simp add: route_step_def blocked_roads_def)
  with Cons show ?case by simp
qed

lemma route_body_lower:
  assumes "lower rt d1 = lower rt d2"
  shows "route_body rt route_data d1 = route_body rt route_data d2"
  unfolding route_body_def route_steps_loop_lower [OF assms] by (rule refl)

subsection \<open>The sample runs\<close>

lemma sample_flood:
  "get_safe_route sample_runtime (Body (sample_route ''Ok'')) (lit ''Flood'') =
     Inr (sample_result True)"
  by code_simp

lemma sample_flood_upper:
  "get_safe_route sample_runtime (Body (sample_route ''Ok'')) (lit ''FLOOD'') =
     Inr (sample_result True)"
  by code_simp

lemma sample_volcano:
  "get_safe_route sample_runtime (Body (sample_route ''Ok'')) (lit ''Volcano'') =
     Inr (sample_result False)"
  by code_simp

lemma sample_steps:
  "subscript (sample_result b) (lit ''steps'') =
     Inr (PList [sample_entry ''Main Street'' b, sample_entry ''Oak Ave'' False])"
  by (simp add: sample_result_def lit_def)

lemma sample_leg_steps:
  "leg_steps (sample_route ''Ok'') = Inr [sample_step ''Main Street'', sample_step ''Oak Ave'']"
  by code_simp

subsection \<open>Distance and duration of a step\<close>

text \<open>
  Claim C2, as the specification words it: every step of a successful result carries the
  per-step distance of the routing service in meters, as a number, and the per-step
  duration in seconds, as a number. The source does not do that. For a response whose
  two steps have the distance 1500 and the duration 90, both steps of the result carry
  the texts \<open>1.5 km\<close> and \<open>1.5 min\<close>, which are not the numbers 1500 and 90; only the totals
  of the route, 3000 and 180, are passed on as they came.
\<close>

theorem route_step_distance_counterexample:
  "get_safe_route sample_runtime (Body (sample_route ''Ok'')) (lit ''Flood'') =
     Inr (PDict
       [(lit ''distance'', PNum 3000),
        (lit ''duration'', PNum 180),
        (lit ''steps'', PList
           [PDict
              [(lit ''instruction'', PStr (lit ''Turn left'')),
               (lit ''distance'', PStr (lit ''1.5 km'')),
               (lit ''duration'', PStr (lit ''1.5 min'')),
               (lit ''road'', PStr (lit ''Main Street'')),
               (lit ''blocked'', PBool True),
               (lit ''alternative'', PStr (lit ''Use Service Lane''))],
            PDict
              [(lit ''instruction'', PStr (lit ''Turn left'')),
               (lit ''distance'', PStr (lit ''1.5 km'')),
               (lit ''duration'', PStr (lit ''1.5 min'')),
               (lit ''road'', PStr (lit ''Oak Ave'')),
               (lit ''blocked'', PBool False),
               (lit ''alternative'', PNone)]]),
        (lit ''polyline'', PStr (lit ''_p~iF~ps|U''))]) \<and>
   subscript (sample_step ''Main Street'') (lit ''distance'') = Inr (PNum 1500) \<and>
   subscript (sample_step ''Main Street'') (lit ''duration'') = Inr (PNum 90) \<and>
   PStr (lit ''1.5 km'') \<noteq> (PNum 1500 :: int pyval) \<and>
   PStr (lit ''1.5 min'') \<noteq> (PNum 90 :: int pyval)"
  by code_simp

text \<open>
  Claim C2, amended. Every result of \<open>get_safe_route\<close> that has steps comes from a parsed
  response and is exactly the dictionary of \<open>distance\<close>, \<open>duration\<close>, \<open>steps\<close> and
  \<open>polyline\<close>, where \<open>distance\<close>, \<open>duration\<close> and \<open>polyline\<close> are the distance, the
  duration and the geometry of the first route of the response, passed on as they came.
  The steps correspond one to one, in order, to the steps of the first leg of that route,
  and each is exactly the dictionary of six fields: \<open>instruction\<close>, the instruction of the
  step's maneuver; \<open>distance\<close>, the text of the per-step distance divided by 1000,
  printed with one decimal and followed by \<open> km\<close>; \<open>duration\<close>, the text of the per-step
  duration divided by 60, printed with one decimal and followed by \<open> min\<close>; \<open>road\<close>, the
  name of the step or \<open>Unnamed Road\<close>; \<open>blocked\<close>; and \<open>alternative\<close>. The distance and
  the duration of a step are thus texts, and a step has no further field.
\<close>

theorem route_step_distance_text:
  assumes "get_safe_route rt response disaster_type = Inr result"
    and "subscript result (lit ''steps'') = Inr route_steps"
  shows "\<exists>route_data route steps entries total_distance total_duration geometry.
     response = Body route_data \<and>
     first_route route_data = Inr route \<and>
     subscript route (lit ''distance'') = Inr total_distance \<and>
     subscript route (lit ''duration'') = Inr total_duration \<and>
     subscript route (lit ''geometry'') = Inr geometry \<and>
     leg_steps route_data = Inr steps \<and>
     route_steps = PList entries \<and>
     result = PDict
       [(lit ''distance'', total_distance),
        (lit ''duration'', total_duration),
        (lit ''steps'', PList entries),
        (lit ''polyline'', geometry)] \<and>
     list_all2 (\<lambda>step entry. \<exists>road_name maneuver instruction d sd t st.
         py_get step (lit ''name'') (PStr (lit ''Unnamed Road'')) = Inr road_name \<and>
         subscript step (lit ''maneuver'') = Inr maneuver \<and>
         subscript maneuver (lit ''instruction'') = Inr instruction \<and>
         subscript step (lit ''distance'') = Inr d \<and> div_fmt rt d 1000 = Inr sd \<and>
         subscript step (lit ''duration'') = Inr t \<and> div_fmt rt t 60 = Inr st \<and>
         entry = PDict
           [(lit ''instruction'', instruction),
            (lit ''distance'', PStr (sd @ lit '' km'')),
            (lit ''duration'', PStr (st @ lit '' min'')),
            (lit ''road'', road_name),
            (lit ''blocked'',
               PBool (road_name \<in> set (map PStr (blocked_roads rt disaster_type)))),
            (lit ''alternative'',
               if road_name \<in> set (map PStr (blocked_roads rt disaster_type))
               then PStr (lit ''Use Service Lane'') else PNone)])
       steps entries"
proof -
  from get_safe_route_result [OF assms] obtain route_data route steps entries
      total_distance total_duration geometry where
    r: "response = Body route_data" "first_route route_data = Inr route"
      "subscript route (lit ''distance'') = Inr total_distance"
      "subscript route (lit ''duration'') = Inr total_duration"
      "subscript route (lit ''geometry'') = Inr geometry"
      "leg_steps route_data = Inr steps" "route_steps = PList entries"
      "result = PDict
       [(lit ''distance'', total_distance),
        (lit ''duration'', total_duration),
        (lit ''steps'', PList entries),
        (lit ''polyline'', geometry)]"
    and loop: "route_steps_loop rt disaster_type steps [] = Inr entries"
    by blast
  from route_steps_loop_Inr [OF loop]
  have "list_all2 (\<lambda>step entry. route_step rt disaster_type step = Inr entry) steps entries"
    by simp
  then have "list_all2 (\<lambda>step entry. \<exists>road_name maneuver instruction d sd t st.
         py_get step (lit ''name'') (PStr (lit ''Unnamed Road'')) = Inr road_name \<and>
         subscript step (lit ''maneuver'') = Inr maneuver \<and>
         subscript maneuver (lit ''instruction'') = Inr instruction \<and>
         subscript step (lit ''distance'') = Inr d \<and> div_fmt rt d 1000 = Inr sd \<and>
         subscript step (lit ''duration'') = Inr t \<and> div_fmt rt t 60 = Inr st \<and>
         entry = PDict
           [(lit ''instruction'', instruction),
            (lit ''distance'', PStr (sd @ lit '' km'')),
            (lit ''duration'', PStr (st @ lit '' min'')),
            (lit ''road'', road_name),
            (lit ''blocked'',
               PBool (road_name \<in> set (map PStr (blocked_roads rt disaster_type)))),
            (lit ''alternative'',
               if road_name \<in> set (map PStr (blocked_roads rt disaster_type))
               then PStr (lit ''Use Service Lane'') else PNone)])
       steps entries"
    by (rule list_all2_mono) (rule route_step_fields)
  with r show ?thesis by blast
qed

theorem route_step_distance_text_witness:
  "get_safe_route sample_runtime (Body (sample_route ''Ok'')) (lit ''Flood'') =
     Inr (sample_result True) \<and>
   subscript (sample_result True) (lit ''steps'') =
     Inr (PList [sample_entry ''Main Street'' True, sample_entry ''Oak Ave'' False]) \<and>
   sample_result True = PDict
     [(lit ''distance'', PNum 3000),
      (lit ''duration'', PNum 180),
      (lit ''steps'', PList [sample_entry ''Main Street'' True, sample_entry ''Oak Ave'' False]),
      (lit ''polyline'', PStr (lit ''_p~iF~ps|U''))] \<and>
   list_all2 (\<lambda>step entry. \<exists>road_name maneuver instruction d sd t st.
         py_get step (lit ''name'') (PStr (lit ''Unnamed Road'')) = Inr road_name \<and>
         subscript step (lit ''maneuver'') = Inr maneuver \<and>
         subscript maneuver (lit ''instruction'') = Inr instruction \<and>
         subscript step (lit ''distance'') = Inr d \<and> div_fmt sample_runtime d 1000 = Inr sd \<and>
         subscript step (lit ''duration'') = Inr t \<and> div_fmt sample_runtime t 60 = Inr st \<and>
         entry = PDict
           [(lit ''instruction'', instruction),
            (lit ''distance'', PStr (sd @ lit '' km'')),
            (lit ''duration'', PStr (st @ lit '' min'')),
            (lit ''road'', road_name),
            (lit ''blocked'',
               PBool (road_name \<in> set (map PStr (blocked_roads sample_runtime (lit ''Flood''))))),
            (lit ''alternative'',
               if road_name \<in> set (map PStr (blocked_roads sample_runtime (lit ''Flood'')))
               then PStr (lit ''Use Service Lane'') else PNone)])
     [sample_step ''Main Street'', sample_step ''Oak Ave'']
     [sample_entry ''Main Street'' True, sample_entry ''Oak Ave'' False]"
proof -
  have shape: "sample_result True = PDict
     [(lit ''distance'', PNum 3000),
      (lit ''duration'', PNum 180),
      (lit ''steps'', PList [sample_entry ''Main Street'' True, sample_entry ''Oak Ave'' False]),
      (lit ''polyline'', PStr (lit ''_p~iF~ps|U''))]"
    by (simp add: sample_result_def)
  from route_step_distance_text [OF sample_flood sample_steps]
  have "list_all2 (\<lambda>step entry. \<exists>road_name maneuver instruction d sd t st.
         py_get step (lit ''name'') (PStr (lit ''Unnamed Road'')) = Inr road_name \<and>
         subscript step (lit ''maneuver'') = Inr maneuver \<and>
         subscript maneuver (lit ''instruction'') = Inr instruction \<and>
         subscript step (lit ''distance'') = Inr d \<and> div_fmt sample_runtime d 1000 = Inr sd \<and>
         subscript step (lit ''duration'') = Inr t \<and> div_fmt sample_runtime t 60 = Inr st \<and>
         entry = PDict
           [(lit ''instruction'', instruction),
            (lit ''distance'', PStr (sd @ lit '' km'')),
            (lit ''duration'', PStr (st @ lit '' min'')),
            (lit ''road'', road_name),
            (lit ''blocked'',
               PBool (road_name \<in> set (map PStr (blocked_roads sample_runtime (lit ''Flood''))))),
            (lit ''alternative'',
               if road_name \<in> set (map PStr (blocked_roads sample_runtime (lit ''Flood'')))
               then PStr (lit ''Use Service Lane'') else PNone)])
     [sample_step ''Main Street'', sample_step ''Oak Ave'']
     [sample_entry ''Main Street'' True, sample_entry ''Oak Ave'' False]"
    by (auto simp: sample_leg_steps)
  with sample_flood sample_steps shape show ?thesis by blast
qed

subsection \<open>Blockage and alternative\<close>

text \<open>
  Claim C3. Every step in a result of \<open>get_safe_route\<close> has a boolean under \<open>blocked\<close>,
  and under \<open>alternative\<close> the text \<open>Use Service Lane\<close> when that boolean is true and
  \<open>None\<close> when it is false: the alternative is not \<open>None\<close> exactly when the step is
  blocked.
\<close>

theorem route_step_alternative:
  assumes "get_safe_route rt response disaster_type = Inr result"
    and "subscript result (lit ''steps'') = Inr (PList route_steps)"
    and "entry \<in> set route_steps"
  shows "\<exists>blockage.
     subscript entry (lit ''blocked'') = Inr (PBool blockage) \<and>
     subscript entry (lit ''alternative'') =
       Inr (if blockage then PStr (lit ''Use Service Lane'') else PNone) \<and>
     (subscript entry (lit ''alternative'') \<noteq> Inr PNone) = blockage"
proof -
  from get_safe_route_entry [OF assms] obtain step where
    "route_step rt disaster_type step = Inr entry" by blast
  from route_step_Inr [OF this] show ?thesis
    by (auto simp: lit_def split: if_splits)
qed

theorem route_step_alternative_witness:
  "get_safe_route sample_runtime (Body (sample_route ''Ok'')) (lit ''Flood'') =
     Inr (sample_result True) \<and>
   subscript (sample_result True) (lit ''steps'') =
     Inr (PList [sample_entry ''Main Street'' True, sample_entry ''Oak Ave'' False]) \<and>
   sample_entry ''Main Street'' True \<in>
     set [sample_entry ''Main Street'' True, sample_entry ''Oak Ave'' False] \<and>
   subscript (sample_entry ''Main Street'' True) (lit ''blocked'') = Inr (PBool True) \<and>
   subscript (sample_entry ''Main Street'' True) (lit ''alternative'') =
     Inr (PStr (lit ''Use Service Lane''))"
proof -
  have m: "sample_entry ''Main Street'' True \<in>
      set [sample_entry ''Main Street'' True, sample_entry ''Oak Ave'' False]"
    by simp
  have b: "subscript (sample_entry ''Main Street'' True) (lit ''blocked'') = Inr (PBool True)"
    by (simp add: sample_entry_def lit_def)
  from route_step_alternative [OF sample_flood sample_steps m] b
  show ?thesis
    by (auto simp: sample_flood sample_steps)
qed

text \<open>
  Claim C4. When the parsed response is a dictionary whose \<open>code\<close> is not the text \<open>Ok\<close>
  (or is missing, which \<open>get\<close> reads as \<open>None\<close>), \<open>get_safe_route\<close> returns the dictionary
  with the one entry \<open>error\<close>, \<open>No route found\<close>, whatever else the response holds and
  whatever the disaster type: the loop over the steps is not reached, and the result has
  no \<open>steps\<close>.
\<close>

theorem non_ok_code_no_route:
  assumes "py_get route_data (lit ''code'') PNone = Inr code"
    and "code \<noteq> PStr (lit ''Ok'')"
  shows "get_safe_route rt (Body route_data) disaster_type =
       Inr (PDict [(lit ''error'', PStr (lit ''No route found''))]) \<and>
     subscript (PDict [(lit ''error'', PStr (lit ''No route found''))]) (lit ''steps'') =
       (Inl KeyError :: exn + 'n pyval)"
  using assms
  by (simp add: get_safe_route_def route_body_def and_then_def except_KeyError_def lit_def)

theorem non_ok_code_no_route_witness:
  "py_get sample_no_route (lit ''code'') PNone = Inr (PStr (lit ''NoRoute'')) \<and>
   PStr (lit ''NoRoute'') \<noteq> (PStr (lit ''Ok'') :: int pyval) \<and>
   get_safe_route sample_runtime (Body sample_no_route) (lit ''Flood'') =
     Inr (PDict [(lit ''error'', PStr (lit ''No route found''))])"
proof -
  have c: "py_get sample_no_route (lit ''code'') PNone = Inr (PStr (lit ''NoRoute''))"
    by (simp add: sample_no_route_def lit_def)
  have n: "PStr (lit ''NoRoute'') \<noteq> (PStr (lit ''Ok'') :: int pyval)"
    by (simp add: lit_def)
  from non_ok_code_no_route [OF c n, of sample_runtime "lit ''Flood''"]
  have "get_safe_route sample_runtime (Body sample_no_route) (lit ''Flood'') =
      Inr (PDict [(lit ''error'', PStr (lit ''No route found''))])" ..
  with c n show ?thesis by blast
qed

text \<open>
  Claim C7. Two disaster types that differ in case only, that is, that \<open>lower()\<close> maps to
  the same text, give the same result on every response: the same steps are blocked.
  So do \<open>FLOOD\<close> and \<open>flood\<close>.
\<close>

theorem disaster_type_case_insensitive:
  assumes "lower rt d1 = lower rt d2"
  shows "get_safe_route rt response d1 = get_safe_route rt response d2"
  by (cases response) (simp_all add: get_safe_route_def route_body_lower [OF assms])

theorem disaster_type_case_insensitive_witness:
  "lower sample_runtime (lit ''FLOOD'') = lower sample_runtime (lit ''flood'') \<and>
   get_safe_route sample_runtime (Body (sample_route ''Ok'')) (lit ''FLOOD'') =
     get_safe_route sample_runtime (Body (sample_route ''Ok'')) (lit ''flood'') \<and>
   get_safe_route sample_runtime (Body (sample_route ''Ok'')) (lit ''FLOOD'') =
     Inr (sample_result True)"
proof -
  have l: "lower sample_runtime (lit ''FLOOD'') = lower sample_runtime (lit ''flood'')"
    by (simp add: sample_runtime_def ascii_lower_def lit_def)
  from disaster_type_case_insensitive [OF l, of "Body (sample_route ''Ok'')"] l sample_flood_upper
  show ?thesis by simp
qed

text \<open>
  Claim C8. When the disaster type, in lower case, is none of \<open>flood\<close>, \<open>fire\<close> and
  \<open>earthquake\<close>, the keys of the table, no step of the result is blocked, and no step
  has an alternative. So it is for \<open>Volcano\<close>.
\<close>

theorem unknown_disaster_no_blockage:
  assumes "lower rt disaster_type \<notin> {lit ''flood'', lit ''fire'', lit ''earthquake''}"
    and "get_safe_route rt response disaster_type = Inr result"
    and "subscript result (lit ''steps'') = Inr (PList route_steps)"
    and "entry \<in> set route_steps"
  shows "subscript entry (lit ''blocked'') = Inr (PBool False) \<and>
     subscript entry (lit ''alternative'') = Inr PNone"
proof -
  from assms(1) have "blocked_roads rt disaster_type = []"
    by (simp add: blocked_roads_def simulated_blockages_def)
  moreover from get_safe_route_entry [OF assms(2-4)] obtain step where
    "route_step rt disaster_type step = Inr entry" by blast
  from route_step_Inr [OF this] obtain road_name instruction sd st where
    "entry = PDict
       [(lit ''instruction'', instruction),
        (lit ''distance'', PStr (sd @ lit '' km'')),
        (lit ''duration'', PStr (st @ lit '' min'')),
        (lit ''road'', road_name),
        (lit ''blocked'', PBool (road_name \<in> set (map PStr (blocked_roads rt disaster_type)))),
        (lit ''alternative'',
           if road_name \<in> set (map PStr (blocked_roads rt disaster_type))
           then PStr (lit ''Use Service Lane'') else PNone)]"
    by blast
  ultimately show ?thesis
    by (simp add: lit_def)
qed

theorem unknown_disaster_no_blockage_witness:
  "lower sample_runtime (lit ''Volcano'') \<notin> {lit ''flood'', lit ''fire'', lit ''earthquake''} \<and>
   get_safe_route sample_runtime (Body (sample_route ''Ok'')) (lit ''Volcano'') =
     Inr (sample_result False) \<and>
   subscript (sample_result False) (lit ''steps'') =
     Inr (PList [sample_entry ''Main Street'' False, sample_entry ''Oak Ave'' False]) \<and>
   sample_entry ''Main Street'' False \<in>
     set [sample_entry ''Main Street'' False, sample_entry ''Oak Ave'' False] \<and>
   subscript (sample_entry ''Main Street'' False) (lit ''blocked'') = Inr (PBool False) \<and>
   subscript (sample_entry ''Main Street'' False) (lit ''alternative'') = Inr PNone"
proof -
  have u: "lower sample_runtime (lit ''Volcano'') \<notin>
      {lit ''flood'', lit ''fire'', lit ''earthquake''}"
    by (simp add: sample_runtime_def ascii_lower_def lit_def)
  have m: "sample_entry ''Main Street'' False \<in>
      set [sample_entry ''Main Street'' False, sample_entry ''Oak Ave'' False]"
    by simp
  from unknown_disaster_no_blockage [OF u sample_volcano sample_steps m] u m
  show ?thesis
    by (simp add: sample_volcano sample_steps)
qed

section \<open>Properties of the submission flow\<close>

text \<open>
  Claim C5. The flow stops at the first stage that fails. When the lookup fails, at most
  the lookup has been called; when the routing fails, the text generation has not been
  called; and when any of the three stages fails, the flow does not reach the display of
  the results. The calls are always made in the order lookup, routing, generation, each
  at most once.
\<close>

theorem submission_fail_fast:
  "(\<not> found_shelters rt overpass \<longrightarrow>
      set (fst (submitted rt emergency_desc disaster_type overpass osrm generated)) \<subseteq> {Lookup} \<and>
      snd (submitted rt emergency_desc disaster_type overpass osrm generated) \<noteq> Rendering) \<and>
   (\<not> found_route rt osrm disaster_type \<longrightarrow>
      set (fst (submitted rt emergency_desc disaster_type overpass osrm generated))
        \<subseteq> {Lookup, Routing} \<and>
      snd (submitted rt emergency_desc disaster_type overpass osrm generated) \<noteq> Rendering) \<and>
   (\<not> found_analysis generated \<longrightarrow>
      snd (submitted rt emergency_desc disaster_type overpass osrm generated) \<noteq> Rendering) \<and>
   prefix (fst (submitted rt emergency_desc disaster_type overpass osrm generated))
     [Lookup, Routing, Generation]"
  by (auto simp: submitted_def found_shelters_def found_route_def found_analysis_def
      error_message_def Let_def split: sum.splits bool.splits if_splits)

theorem submission_fail_fast_witness:
  "\<not> found_shelters sample_runtime (RequestException (lit ''timed out'')) \<and>
   \<not> found_route sample_runtime (Body sample_no_route) (lit ''Flood'') \<and>
   \<not> found_analysis (Inr (PDict [(lit ''error'', PStr (lit ''AI service unavailable''))])
       :: exn + int pyval) \<and>
   submitted sample_runtime (lit ''Flood rising'') (lit ''Flood'')
     (RequestException (lit ''timed out'')) (Body sample_no_route)
     (Inr (PDict [(lit ''error'', PStr (lit ''AI service unavailable''))])) =
     ([Lookup], Stopped NoShelters) \<and>
   found_shelters sample_runtime (Body sample_shelters) \<and>
   submitted sample_runtime (lit ''Flood rising'') (lit ''Flood'') (Body sample_shelters)
     (Body sample_no_route)
     (Inr (PDict [(lit ''error'', PStr (lit ''AI service unavailable''))])) =
     ([Lookup, Routing], Stopped RoutingError) \<and>
   found_route sample_runtime (Body (sample_route ''Ok'')) (lit ''Flood'') \<and>
   submitted sample_runtime (lit ''Flood rising'') (lit ''Flood'') (Body sample_shelters)
     (Body (sample_route ''Ok''))
     (Inr (PDict [(lit ''error'', PStr (lit ''AI service unavailable''))])) =
     ([Lookup, Routing, Generation], Stopped AnalysisError) \<and>
   submitted sample_runtime (lit ''Flood rising'') (lit ''Flood'') (Body sample_shelters)
     (Body (sample_route ''Ok'')) (Inr (PStr (lit ''Stay calm''))) =
     ([Lookup, Routing, Generation], Rendering)"
proof -
  have l: "\<not> found_shelters sample_runtime (RequestException (lit ''timed out''))"
    by code_simp
  have r: "\<not> found_route sample_runtime (Body sample_no_route) (lit ''Flood'')"
    by code_simp
  have g: "\<not> found_analysis (Inr (PDict [(lit ''error'', PStr (lit ''AI service unavailable''))])
       :: exn + int pyval)"
    by code_simp
  have l': "submitted sample_runtime (lit ''Flood rising'') (lit ''Flood'')
     (RequestException (lit ''timed out'')) (Body sample_no_route)
     (Inr (PDict [(lit ''error'', PStr (lit ''AI service unavailable''))])) =
     ([Lookup], Stopped NoShelters)"
    by code_simp
  have s: "found_shelters sample_runtime (Body sample_shelters)"
    by code_simp
  have r': "submitted sample_runtime (lit ''Flood rising'') (lit ''Flood'') (Body sample_shelters)
     (Body sample_no_route)
     (Inr (PDict [(lit ''error'', PStr (lit ''AI service unavailable''))])) =
     ([Lookup, Routing], Stopped RoutingError)"
    by code_simp
  have f: "found_route sample_runtime (Body (sample_route ''Ok'')) (lit ''Flood'')"
    by code_simp
  have g': "submitted sample_runtime (lit ''Flood rising'') (lit ''Flood'') (Body sample_shelters)
     (Body (sample_route ''Ok''))
     (Inr (PDict [(lit ''error'', PStr (lit ''AI service unavailable''))])) =
     ([Lookup, Routing, Generation], Stopped AnalysisError)"
    by code_simp
  have ok: "submitted sample_runtime (lit ''Flood rising'') (lit ''Flood'') (Body sample_shelters)
     (Body (sample_route ''Ok'')) (Inr (PStr (lit ''Stay calm''))) =
     ([Lookup, Routing, Generation], Rendering)"
    by code_simp
  from submission_fail_fast [where rt = sample_runtime
      and overpass = "RequestException (lit ''timed out'')"
      and osrm = "Body sample_no_route" and disaster_type = "lit ''Flood''"
      and generated = "Inr (PDict [(lit ''error'', PStr (lit ''AI service unavailable''))])"
      and emergency_desc = "lit ''Flood rising''"]
    l r g l' s r' f g' ok
  show ?thesis by simp
qed

end
